theory Spec2Isabelle
  imports Complex_Main "HOL-Library.Char_ord" "HOL-Library.List_Lexorder"
begin

section \<open>Data model\<close>

text \<open>
  The dashboard script \<^verbatim>\<open>stream5.py\<close> works on a pandas data frame read from
  \<^verbatim>\<open>sales_data.csv\<close>. A frame is modelled as the list of its rows, in index order; a
  row is a record with one field per column. A cell that pandas holds as NaN / None / NaT
  is \<open>None\<close>. Prices, ages and response times are Python floats (IEEE doubles); a
  double is modelled as the rational number it denotes. The sums and means pandas takes
  over a column are modelled exactly. The two places where the script itself does float
  arithmetic, the product \<^verbatim>\<open>sales_target * 0.9\<close> and the quotient
  \<^verbatim>\<open>number_of_sales / total_events * 100\<close>, are modelled with the rounding of
  double arithmetic (section "Double arithmetic"). Dates and timestamps are seconds on
  one time line (timezone-naive \<^verbatim>\<open>datetime64\<close>).

  The \<^verbatim>\<open>timestamp\<close> column is parsed by \<^verbatim>\<open>read_csv(parse_dates=...)\<close> only: where
  a value cannot be parsed the column stays a column of strings, so a timestamp cell is a
  time, NaT, or an unparsed string. The \<^verbatim>\<open>sale_date\<close> column is converted a second time
  with \<^verbatim>\<open>errors='coerce'\<close> (line 50), so its cells are a time or NaT.
\<close>

datatype ts_cell = NaT | Ts int | Unparsed string

record row =
  sale_date :: "int option"
  country :: "string option"
  salesperson :: "string option"
  total_price :: "rat option"
  category :: "string option"
  product_name :: "string option"
  sales_channel :: "string option"
  customer_age :: "rat option"
  customer_gender :: "string option"
  event_type :: "string option"
  status_code :: "int option"
  customer_id :: "string option"
  customer_type :: "string option"
  occupation :: "string option"
  session_id :: "string option"
  response_time_ms :: "rat option"
  url_requested :: "string option"
  timestamp :: ts_cell

text \<open>A row with every cell null; concrete rows below are written as updates of it.\<close>

definition blank_row :: row where
  "blank_row = \<lparr> sale_date = None, country = None, salesperson = None, total_price = None,
     category = None, product_name = None, sales_channel = None, customer_age = None,
     customer_gender = None, event_type = None, status_code = None, customer_id = None,
     customer_type = None, occupation = None, session_id = None, response_time_ms = None,
     url_requested = None, timestamp = NaT \<rparr>"

datatype py_error = IndexError | ValueError | ZeroDivisionError

section \<open>Double arithmetic\<close>

text \<open>
  An arithmetic operation on doubles returns the double nearest to the exact result, ties
  going to the even significand. A double has a 53-bit significand: a positive number is
  \<open>m * u\<close> with an integer \<open>m\<close> below \<open>2^53\<close> and a unit \<open>u\<close>, a power of two not below
  \<open>2^-1074\<close>; for a normal number \<open>m\<close> is at least \<open>2^52\<close>. \<open>rne\<close> rounds to the nearest
  integer, ties to even. \<open>scale_down\<close> and \<open>scale_up\<close> find the unit of a positive
  number: they halve, or double, the number until it lies in \<open>[2^52, 2^53)\<close>, doubling
  stops at the smallest unit (the subnormal range). Overflow to infinity is not
  modelled; the operations of the script modelled below cannot overflow (a product with
  0.9, a quotient of two counts, a product of a number at most 1 with 100).
\<close>

definition rne :: "rat \<Rightarrow> int" where
  "rne q =
     (let f = \<lfloor>q\<rfloor>; d = q - of_int f
      in if d < 1 / 2 then f else if 1 / 2 < d then f + 1 else if even f then f else f + 1)"

function scale_down :: "rat \<Rightarrow> rat \<Rightarrow> rat \<times> rat" where
  "scale_down m u = (if 2 ^ 53 \<le> m then scale_down (m / 2) (u * 2) else (m, u))"
  by pat_completeness auto
termination
proof (relation "measure (\<lambda>(m, u). nat \<lfloor>m\<rfloor>)")
  show "wf (measure (\<lambda>(m::rat, u::rat). nat \<lfloor>m\<rfloor>))" by simp
next
  fix m u :: rat
  assume big: "2 ^ 53 \<le> m"
  then have one: "1 \<le> m" by simp
  have up: "m < of_int \<lfloor>m\<rfloor> + 1" by linarith
  have "1 \<le> \<lfloor>m\<rfloor>" using one by (simp add: le_floor_iff)
  then have "(1::rat) \<le> of_int \<lfloor>m\<rfloor>" by simp
  with up have "m / 2 < of_int \<lfloor>m\<rfloor>" by linarith
  then have "\<lfloor>m / 2\<rfloor> < \<lfloor>m\<rfloor>" by (simp add: floor_less_iff)
  moreover have "0 < \<lfloor>m\<rfloor>" using one by simp
  ultimately show "((m / 2, u * 2), (m, u)) \<in> measure (\<lambda>(m, u). nat \<lfloor>m\<rfloor>)"
    by simp
qed

definition min_ulp :: rat where
  "min_ulp = 1 / 2 ^ 1074"

function scale_up :: "rat \<Rightarrow> rat \<Rightarrow> rat \<times> rat" where
  "scale_up m u = (if m < 2 ^ 52 \<and> min_ulp < u then scale_up (m * 2) (u / 2) else (m, u))"
  by pat_completeness auto
termination
proof (relation "measure (\<lambda>(m, u). nat \<lfloor>u / min_ulp\<rfloor>)")
  show "wf (measure (\<lambda>(m::rat, u::rat). nat \<lfloor>u / min_ulp\<rfloor>))" by simp
next
  fix m u :: rat
  define a where "a = u / min_ulp"
  assume "m < 2 ^ 52 \<and> min_ulp < u"
  then have "1 < a" by (simp add: a_def min_ulp_def)
  then have one: "1 \<le> a" by simp
  have up: "a < of_int \<lfloor>a\<rfloor> + 1" by linarith
  have "1 \<le> \<lfloor>a\<rfloor>" using one by (simp add: le_floor_iff)
  then have "(1::rat) \<le> of_int \<lfloor>a\<rfloor>" by simp
  with up have "a / 2 < of_int \<lfloor>a\<rfloor>" by linarith
  then have "\<lfloor>a / 2\<rfloor> < \<lfloor>a\<rfloor>" by (simp add: floor_less_iff)
  then have less: "\<lfloor>u / min_ulp / 2\<rfloor> < \<lfloor>u / min_ulp\<rfloor>" by (simp only: a_def)
  have "0 < \<lfloor>a\<rfloor>" using one by simp
  then have pos: "0 < \<lfloor>u / min_ulp\<rfloor>" by (simp only: a_def)
  from less pos show "((m * 2, u / 2), (m, u)) \<in> measure (\<lambda>(m, u). nat \<lfloor>u / min_ulp\<rfloor>)"
    by (simp add: mult.commute)
qed

declare scale_down.simps [simp del] scale_up.simps [simp del]

definition round_double :: "rat \<Rightarrow> rat" where
  "round_double x =
     (if x = 0 then 0
      else (case scale_down \<bar>x\<bar> 1 of
              (m, u) \<Rightarrow> (case scale_up m u of
                           (m', u') \<Rightarrow> sgn x * of_int (rne m') * u')))"

text \<open>The product of two doubles, and Python's true division \<^verbatim>\<open>a / b\<close> of two
  integers, which is correctly rounded and raises \<^verbatim>\<open>ZeroDivisionError\<close> for \<open>b = 0\<close>.
  A decimal literal such as \<^verbatim>\<open>0.9\<close> is the double nearest to it.\<close>

definition fmul :: "rat \<Rightarrow> rat \<Rightarrow> rat" where
  "fmul a b = round_double (a * b)"

definition py_truediv :: "nat \<Rightarrow> nat \<Rightarrow> py_error + rat" where
  "py_truediv a b =
     (if b = 0 then Inl ZeroDivisionError else Inr (round_double (of_nat a / of_nat b)))"

section \<open>pandas primitives\<close>

text \<open>Element-wise comparisons of a column with a scalar: a null cell compares False.\<close>

definition pd_gt :: "'a::linorder option \<Rightarrow> 'a \<Rightarrow> bool" where
  "pd_gt cell v = (case cell of None \<Rightarrow> False | Some x \<Rightarrow> v < x)"

definition pd_lt :: "'a::linorder option \<Rightarrow> 'a \<Rightarrow> bool" where
  "pd_lt cell v = (case cell of None \<Rightarrow> False | Some x \<Rightarrow> x < v)"

definition pd_ge :: "'a::linorder option \<Rightarrow> 'a \<Rightarrow> bool" where
  "pd_ge cell v = (case cell of None \<Rightarrow> False | Some x \<Rightarrow> v \<le> x)"

definition pd_le :: "'a::linorder option \<Rightarrow> 'a \<Rightarrow> bool" where
  "pd_le cell v = (case cell of None \<Rightarrow> False | Some x \<Rightarrow> x \<le> v)"

definition pd_eq :: "'a option \<Rightarrow> 'a \<Rightarrow> bool" where
  "pd_eq cell v = (case cell of None \<Rightarrow> False | Some x \<Rightarrow> x = v)"

text \<open>
  \<^verbatim>\<open>Series.str.contains(keyword, case=False, na=False)\<close>: the match itself (a
  case-insensitive regular-expression search) is a parameter \<open>str_contains\<close>; a null cell
  gives False.
\<close>

definition contains_na :: "(string \<Rightarrow> string \<Rightarrow> bool) \<Rightarrow> string \<Rightarrow> string option \<Rightarrow> bool" where
  "contains_na str_contains keyword cell =
     (case cell of None \<Rightarrow> False | Some s \<Rightarrow> str_contains keyword s)"

text \<open>\<^verbatim>\<open>Series.sum()\<close> and \<^verbatim>\<open>Series.mean()\<close> skip nulls; the sum of nothing is 0, the
  mean of nothing is NaN (\<open>None\<close>).\<close>

definition non_null :: "'a option list \<Rightarrow> 'a list" where
  "non_null cells = List.map_filter (\<lambda>c. c) cells"

definition pd_sum :: "rat option list \<Rightarrow> rat" where
  "pd_sum cells = sum_list (non_null cells)"

definition pd_mean :: "rat option list \<Rightarrow> rat option" where
  "pd_mean cells =
     (let vs = non_null cells
      in if vs = [] then None else Some (sum_list vs / of_nat (length vs)))"

text \<open>
  \<^verbatim>\<open>df.groupby(key)[val]\<close>: the groups are the distinct non-null keys in ascending
  order (\<^verbatim>\<open>sort=True\<close>, \<^verbatim>\<open>dropna=True\<close> are the defaults); each group holds the rows
  with that key, in frame order.
\<close>

definition group_keys :: "('r \<Rightarrow> 'k::linorder option) \<Rightarrow> 'r list \<Rightarrow> 'k list" where
  "group_keys key df = sort (remdups (non_null (map key df)))"

definition group_rows :: "('r \<Rightarrow> 'k option) \<Rightarrow> 'r list \<Rightarrow> 'k \<Rightarrow> 'r list" where
  "group_rows key df k = filter (\<lambda>r. key r = Some k) df"

definition groupby_sum ::
  "('r \<Rightarrow> 'k::linorder option) \<Rightarrow> ('r \<Rightarrow> rat option) \<Rightarrow> 'r list \<Rightarrow> ('k \<times> rat) list" where
  "groupby_sum key val df =
     map (\<lambda>k. (k, pd_sum (map val (group_rows key df k)))) (group_keys key df)"

definition groupby_mean ::
  "('r \<Rightarrow> 'k::linorder option) \<Rightarrow> ('r \<Rightarrow> rat option) \<Rightarrow> 'r list \<Rightarrow> ('k \<times> rat option) list" where
  "groupby_mean key val df =
     map (\<lambda>k. (k, pd_mean (map val (group_rows key df k)))) (group_keys key df)"

text \<open>\<^verbatim>\<open>Series.nlargest(n)\<close>: the \<open>n\<close> largest values in descending order, ties in
  the order of the series (\<^verbatim>\<open>keep='first'\<close>).\<close>

definition nlargest :: "nat \<Rightarrow> ('k \<times> rat) list \<Rightarrow> ('k \<times> rat) list" where
  "nlargest n series = take n (sort_key (\<lambda>kv. - snd kv) series)"

section \<open>Filtering (lines 105-129)\<close>

definition filter_data ::
  "(string \<Rightarrow> string \<Rightarrow> bool) \<Rightarrow> row list \<Rightarrow> string \<Rightarrow> string \<Rightarrow> string \<Rightarrow> string \<Rightarrow>
     string option \<Rightarrow> int \<Rightarrow> int \<Rightarrow> row list" where
  "filter_data str_contains df country_sel category_sel channel_sel keyword salesperson_sel
       start_date end_date =
     (let f1 = (if country_sel \<noteq> ''All''
                then filter (\<lambda>r. pd_eq (country r) country_sel) df else df);
          f2 = (if category_sel \<noteq> ''All''
                then filter (\<lambda>r. pd_eq (category r) category_sel) f1 else f1);
          f3 = (if channel_sel \<noteq> ''All''
                then filter (\<lambda>r. pd_eq (sales_channel r) channel_sel) f2 else f2);
          f4 = (if keyword \<noteq> []
                then filter (\<lambda>r. contains_na str_contains keyword (product_name r) \<or>
                                  contains_na str_contains keyword (url_requested r)) f3
                else f3);
          f5 = (case salesperson_sel of
                  None \<Rightarrow> f4
                | Some sp \<Rightarrow>
                    if sp \<noteq> [] \<and> sp \<noteq> ''All''
                    then filter (\<lambda>r. pd_eq (salesperson r) sp) f4 else f4)
      in filter (\<lambda>r. pd_ge (sale_date r) start_date \<and> pd_le (sale_date r) end_date) f5)"

text \<open>Line 129: the purchase subset the script hands to \<^verbatim>\<open>generate_pdf\<close> (line 429) and
  that the Sales Manager and Sales Marketer views read.\<close>

definition purchases_df :: "row list \<Rightarrow> row list" where
  "purchases_df filtered_df =
     filter (\<lambda>r. pd_gt (total_price r) 0 \<and> pd_eq (event_type r) ''Purchase'' \<and>
                  pd_eq (status_code r) 200) filtered_df"

text \<open>Lines 214-219 (\<^verbatim>\<open>generate_pdf\<close>, Salesperson branch): the branch narrows the frame
  it is given to the salesperson and the date range again and takes its own purchases.\<close>

definition generate_pdf_person_df :: "row list \<Rightarrow> string option \<Rightarrow> int \<Rightarrow> int \<Rightarrow> row list" where
  "generate_pdf_person_df filtered_df selected_salesperson start_date end_date =
     (let person_df =
        (case selected_salesperson of
           None \<Rightarrow> filtered_df
         | Some sp \<Rightarrow>
             if sp \<noteq> [] \<and> sp \<noteq> ''All''
             then filter (\<lambda>r. pd_eq (salesperson r) sp) filtered_df else filtered_df)
      in filter (\<lambda>r. pd_ge (sale_date r) start_date \<and> pd_le (sale_date r) end_date) person_df)"

definition generate_pdf_person_purchases ::
  "row list \<Rightarrow> string option \<Rightarrow> int \<Rightarrow> int \<Rightarrow> row list" where
  "generate_pdf_person_purchases filtered_df selected_salesperson start_date end_date =
     filter (\<lambda>r. pd_gt (total_price r) 0 \<and> pd_eq (event_type r) ''Purchase'' \<and>
                  pd_eq (status_code r) 200)
       (generate_pdf_person_df filtered_df selected_salesperson start_date end_date)"

text \<open>Lines 455-465 (\<^verbatim>\<open>salesperson_dashboard\<close>), called with \<^verbatim>\<open>filtered_df\<close> at line 681.\<close>

definition dashboard_person_df :: "row list \<Rightarrow> string option \<Rightarrow> int \<Rightarrow> int \<Rightarrow> row list" where
  "dashboard_person_df df selected_salesperson start_date end_date =
     (let person_df =
        (case selected_salesperson of
           None \<Rightarrow> df
         | Some sp \<Rightarrow>
             if sp \<noteq> [] \<and> sp \<noteq> ''All''
             then filter (\<lambda>r. pd_eq (salesperson r) sp) df else df)
      in filter (\<lambda>r. pd_ge (sale_date r) start_date \<and> pd_le (sale_date r) end_date) person_df)"

definition dashboard_person_purchases ::
  "row list \<Rightarrow> string option \<Rightarrow> int \<Rightarrow> int \<Rightarrow> row list" where
  "dashboard_person_purchases df selected_salesperson start_date end_date =
     filter (\<lambda>r. pd_gt (total_price r) 0 \<and> pd_eq (event_type r) ''Purchase'' \<and>
                  pd_eq (status_code r) 200)
       (dashboard_person_df df selected_salesperson start_date end_date)"

section \<open>Sales Manager KPIs\<close>

record manager_kpis =
  total_sales :: rat
  top_product :: string
  top_product_sales :: rat
  top_salesperson :: string
  top_salesperson_sales :: rat
  demo_requests :: nat

text \<open>Lines 155-162 (\<^verbatim>\<open>generate_pdf\<close>, Sales Manager branch). \<^verbatim>\<open>iloc[0]\<close> is guarded
  by \<^verbatim>\<open>not ... .empty\<close>, so the empty case is a branch.\<close>

definition generate_pdf_manager :: "row list \<Rightarrow> row list \<Rightarrow> manager_kpis" where
  "generate_pdf_manager filtered_df purchases =
     (let top_products = nlargest 5 (groupby_sum product_name total_price purchases);
          sales_by_person = groupby_sum salesperson total_price purchases
      in \<lparr> total_sales = pd_sum (map total_price purchases),
           top_product = (case top_products of [] \<Rightarrow> ''N/A'' | kv # _ \<Rightarrow> fst kv),
           top_product_sales = (case top_products of [] \<Rightarrow> 0 | kv # _ \<Rightarrow> snd kv),
           top_salesperson = (case sales_by_person of [] \<Rightarrow> ''N/A'' | kv # _ \<Rightarrow> fst kv),
           top_salesperson_sales = (case sales_by_person of [] \<Rightarrow> 0 | kv # _ \<Rightarrow> snd kv),
           demo_requests =
             length (filter (\<lambda>r. pd_eq (event_type r) ''Demo Request'') filtered_df) \<rparr>)"

text \<open>Lines 589-599 (live Sales Manager view): the same, under an extra
  \<^verbatim>\<open>if not purchases_df.empty\<close>.\<close>

definition manager_dashboard :: "row list \<Rightarrow> row list \<Rightarrow> manager_kpis" where
  "manager_dashboard filtered_df purchases =
     (let top_products = nlargest 5 (groupby_sum product_name total_price purchases);
          sales_by_person = groupby_sum salesperson total_price purchases
      in if purchases \<noteq> []
         then \<lparr> total_sales = pd_sum (map total_price purchases),
                top_product = (case top_products of [] \<Rightarrow> ''N/A'' | kv # _ \<Rightarrow> fst kv),
                top_product_sales = (case top_products of [] \<Rightarrow> 0 | kv # _ \<Rightarrow> snd kv),
                top_salesperson = (case sales_by_person of [] \<Rightarrow> ''N/A'' | kv # _ \<Rightarrow> fst kv),
                top_salesperson_sales = (case sales_by_person of [] \<Rightarrow> 0 | kv # _ \<Rightarrow> snd kv),
                demo_requests =
                  length (filter (\<lambda>r. pd_eq (event_type r) ''Demo Request'') filtered_df) \<rparr>
         else \<lparr> total_sales = pd_sum (map total_price purchases),
                top_product = ''N/A'', top_product_sales = 0,
                top_salesperson = ''N/A'', top_salesperson_sales = 0,
                demo_requests =
                  length (filter (\<lambda>r. pd_eq (event_type r) ''Demo Request'') filtered_df) \<rparr>)"

section \<open>Salesperson KPIs\<close>

record salesperson_kpis =
  number_of_sales :: nat
  revenue_achieved :: rat
  top_product_sold :: string
  top_product_sold_sales :: rat
  conversion_rate :: rat
  gauge_color :: string

text \<open>Lines 225-226 (\<^verbatim>\<open>generate_pdf\<close>) and 472-473 (\<^verbatim>\<open>salesperson_dashboard\<close>):
  \<^verbatim>\<open>(number_of_sales / total_events * 100) if total_events > 0 else 0\<close>. The value is
  a percentage; the report prints it as \<^verbatim>\<open>{conversion_rate:.2f}%\<close>.\<close>

definition generate_pdf_conversion_rate :: "nat \<Rightarrow> nat \<Rightarrow> py_error + rat" where
  "generate_pdf_conversion_rate n_sales total_events =
     (if total_events > 0
      then (case py_truediv n_sales total_events of
              Inl err \<Rightarrow> Inl err
            | Inr ratio \<Rightarrow> Inr (fmul ratio 100))
      else Inr 0)"

definition dashboard_conversion_rate :: "nat \<Rightarrow> nat \<Rightarrow> py_error + rat" where
  "dashboard_conversion_rate n_sales total_events =
     (if total_events > 0
      then (case py_truediv n_sales total_events of
              Inl err \<Rightarrow> Inl err
            | Inr ratio \<Rightarrow> Inr (fmul ratio 100))
      else Inr 0)"

text \<open>Lines 228-233 and 476-481: the colour of the gauge bar. The threshold
  \<^verbatim>\<open>sales_target * 0.9\<close> is a product of doubles.\<close>

definition generate_pdf_gauge_color :: "rat \<Rightarrow> rat \<Rightarrow> string" where
  "generate_pdf_gauge_color revenue sales_target =
     (if revenue \<ge> sales_target then ''green''
      else if revenue \<ge> fmul sales_target (round_double (9 / 10)) then ''magenta''
      else ''red'')"

definition dashboard_gauge_color :: "rat \<Rightarrow> rat \<Rightarrow> string" where
  "dashboard_gauge_color revenue sales_target =
     (if revenue \<ge> sales_target then ''green''
      else if revenue \<ge> fmul sales_target (round_double (9 / 10)) then ''magenta''
      else ''red'')"

text \<open>Lines 214-233 (\<^verbatim>\<open>generate_pdf\<close>, Salesperson branch). An exception of the
  division would leave the function; the result is the error or the KPIs.\<close>

definition generate_pdf_salesperson ::
  "row list \<Rightarrow> string option \<Rightarrow> int \<Rightarrow> int \<Rightarrow> rat \<Rightarrow> py_error + salesperson_kpis" where
  "generate_pdf_salesperson filtered_df selected_salesperson start_date end_date sales_target =
     (let person_df = generate_pdf_person_df filtered_df selected_salesperson start_date end_date;
          purchases =
            generate_pdf_person_purchases filtered_df selected_salesperson start_date end_date;
          revenue = pd_sum (map total_price purchases);
          top_products = nlargest 1 (groupby_sum product_name total_price purchases)
      in case generate_pdf_conversion_rate (length purchases) (length person_df) of
           Inl err \<Rightarrow> Inl err
         | Inr rate \<Rightarrow>
             Inr \<lparr> number_of_sales = length purchases,
                   revenue_achieved = revenue,
                   top_product_sold = (case top_products of [] \<Rightarrow> ''N/A'' | kv # _ \<Rightarrow> fst kv),
                   top_product_sold_sales = (case top_products of [] \<Rightarrow> 0 | kv # _ \<Rightarrow> snd kv),
                   conversion_rate = rate,
                   gauge_color = generate_pdf_gauge_color revenue sales_target \<rparr>)"

text \<open>Lines 455-481 (\<^verbatim>\<open>salesperson_dashboard\<close>).\<close>

definition salesperson_dashboard ::
  "row list \<Rightarrow> string option \<Rightarrow> int \<Rightarrow> int \<Rightarrow> rat \<Rightarrow> py_error + salesperson_kpis" where
  "salesperson_dashboard df selected_salesperson start_date end_date sales_target =
     (let person_df = dashboard_person_df df selected_salesperson start_date end_date;
          purchases = dashboard_person_purchases df selected_salesperson start_date end_date;
          revenue = pd_sum (map total_price purchases);
          top_products = nlargest 1 (groupby_sum product_name total_price purchases)
      in case dashboard_conversion_rate (length purchases) (length person_df) of
           Inl err \<Rightarrow> Inl err
         | Inr rate \<Rightarrow>
             Inr \<lparr> number_of_sales = length purchases,
                   revenue_achieved = revenue,
                   top_product_sold = (case top_products of [] \<Rightarrow> ''N/A'' | kv # _ \<Rightarrow> fst kv),
                   top_product_sold_sales = (case top_products of [] \<Rightarrow> 0 | kv # _ \<Rightarrow> snd kv),
                   conversion_rate = rate,
                   gauge_color = dashboard_gauge_color revenue sales_target \<rparr>)"

section \<open>Sales Marketer KPIs\<close>

text \<open>
  \<^verbatim>\<open>pd.to_datetime(column)\<close> with the default \<^verbatim>\<open>errors='raise'\<close>: a string that is no
  date raises a \<^verbatim>\<open>ValueError\<close>; NaT stays NaT. \<^verbatim>\<open>.dt.hour\<close> is the hour of the day,
  null for NaT.
\<close>

fun to_datetime :: "ts_cell list \<Rightarrow> py_error + int option list" where
  "to_datetime [] = Inr []"
| "to_datetime (Unparsed s # cells) = Inl ValueError"
| "to_datetime (NaT # cells) =
     (case to_datetime cells of Inl e \<Rightarrow> Inl e | Inr ts \<Rightarrow> Inr (None # ts))"
| "to_datetime (Ts t # cells) =
     (case to_datetime cells of Inl e \<Rightarrow> Inl e | Inr ts \<Rightarrow> Inr (Some t # ts))"

definition dt_hour :: "int option \<Rightarrow> nat option" where
  "dt_hour cell = map_option (\<lambda>t. nat ((t div 3600) mod 24)) cell"

text \<open>\<^verbatim>\<open>Series.mode()\<close>: the most frequent non-null values, in ascending order; the empty
  series when every value is null.\<close>

definition pd_mode :: "'a::linorder option list \<Rightarrow> 'a list" where
  "pd_mode cells =
     (let vs = non_null cells;
          ks = sort (remdups vs);
          best = fold max (map (count_list vs) ks) 0
      in filter (\<lambda>k. count_list vs k = best) ks)"

datatype hour_kpi = Hour nat | NA

text \<open>Lines 316-320 (\<^verbatim>\<open>generate_pdf\<close>, Sales Marketer branch). \<^verbatim>\<open>unique()\<close> keeps a
  null as one value. \<^verbatim>\<open>iloc[0]\<close> of an empty series raises \<^verbatim>\<open>IndexError\<close>.\<close>

definition generate_pdf_avg_session_length :: "row list \<Rightarrow> rat option" where
  "generate_pdf_avg_session_length filtered_df =
     (if filtered_df \<noteq> []
      then pd_mean (map snd (groupby_mean session_id response_time_ms filtered_df))
      else Some 0)"

definition generate_pdf_most_active_hour :: "row list \<Rightarrow> py_error + hour_kpi" where
  "generate_pdf_most_active_hour filtered_df =
     (case to_datetime (map timestamp filtered_df) of
        Inl e \<Rightarrow> Inl e
      | Inr stamps \<Rightarrow>
          (let hour = map dt_hour stamps
           in if hour \<noteq> []
              then (case pd_mode hour of [] \<Rightarrow> Inl IndexError | h # _ \<Rightarrow> Inr (Hour h))
              else Inr NA))"

record marketer_kpis =
  total_visits :: nat
  avg_session_length :: "rat option"
  most_active_hour :: hour_kpi
  total_log_requests :: nat

definition generate_pdf_marketer :: "row list \<Rightarrow> py_error + marketer_kpis" where
  "generate_pdf_marketer filtered_df =
     (let visits = length (remdups (map session_id filtered_df));
          avg = generate_pdf_avg_session_length filtered_df
      in case generate_pdf_most_active_hour filtered_df of
           Inl e \<Rightarrow> Inl e
         | Inr h \<Rightarrow> Inr \<lparr> total_visits = visits, avg_session_length = avg,
                          most_active_hour = h, total_log_requests = length filtered_df \<rparr>)"

text \<open>Lines 687-702 (live Sales Marketer view).\<close>

definition dashboard_avg_session_length :: "row list \<Rightarrow> rat option" where
  "dashboard_avg_session_length filtered_df =
     (if filtered_df \<noteq> []
      then pd_mean (map snd (groupby_mean session_id response_time_ms filtered_df))
      else Some 0)"

definition dashboard_most_active_hour :: "row list \<Rightarrow> py_error + hour_kpi" where
  "dashboard_most_active_hour filtered_df =
     (case to_datetime (map timestamp filtered_df) of
        Inl e \<Rightarrow> Inl e
      | Inr stamps \<Rightarrow>
          (let hour = map dt_hour stamps
           in if hour \<noteq> []
              then (case pd_mode hour of [] \<Rightarrow> Inl IndexError | h # _ \<Rightarrow> Inr (Hour h))
              else Inr NA))"

definition marketer_dashboard :: "row list \<Rightarrow> py_error + marketer_kpis" where
  "marketer_dashboard filtered_df =
     (let visits = length (remdups (map session_id filtered_df));
          avg = dashboard_avg_session_length filtered_df
      in case dashboard_most_active_hour filtered_df of
           Inl e \<Rightarrow> Inl e
         | Inr h \<Rightarrow> Inr \<lparr> total_visits = visits, avg_session_length = avg,
                          most_active_hour = h, total_log_requests = length filtered_df \<rparr>)"

text \<open>The spec's canonical "successful sale" predicate (section 3 of the spec), written from
  its words: \<open>total_price > 0\<close> and \<open>event_type = Purchase\<close> and \<open>status_code = 200\<close>.\<close>

definition successful_sale :: "row \<Rightarrow> bool" where
  "successful_sale r =
     (total_price r \<noteq> None \<and> 0 < the (total_price r) \<and>
      event_type r = Some ''Purchase'' \<and> status_code r = Some 200)"

text \<open>
  The spec's average session length (section 4.3), written from its words: the plain mean,
  over the distinct sessions, of each session's mean response time. Nulls are left out as
  pandas leaves them out: a row without a session id belongs to no session, a session's
  mean is over its non-null response times, and a session without any has no mean and is
  not counted; with no session left the value is NaN (\<open>None\<close>).
\<close>

definition session_times :: "row list \<Rightarrow> string \<Rightarrow> rat list" where
  "session_times df s = non_null (map response_time_ms (filter (\<lambda>r. session_id r = Some s) df))"

definition session_mean :: "row list \<Rightarrow> string \<Rightarrow> rat" where
  "session_mean df s = sum_list (session_times df s) / of_nat (length (session_times df s))"

definition timed_sessions :: "row list \<Rightarrow> string set" where
  "timed_sessions df =
     Set.filter (\<lambda>s. session_times df s \<noteq> []) (Option.these (session_id ` set df))"

definition mean_of_session_means :: "row list \<Rightarrow> rat option" where
  "mean_of_session_means df =
     (if timed_sessions df = {} then None
      else Some ((\<Sum>s\<in>timed_sessions df. session_mean df s) / of_nat (card (timed_sessions df))))"

text \<open>The flat mean over all rows, for comparison.\<close>

definition flat_mean_response :: "row list \<Rightarrow> rat option" where
  "flat_mean_response df = pd_mean (map response_time_ms df)"

section \<open>Age groups (lines 343-346 and 723-726)\<close>

text \<open>
  \<^verbatim>\<open>pd.cut(x, bins, labels=..., include_lowest=True)\<close> with the default
  \<^verbatim>\<open>right=True\<close>: a value gets the label of the interval \<open>(lo, hi]\<close> of consecutive bin
  edges it lies in; with \<^verbatim>\<open>include_lowest\<close> the first edge itself belongs to the first
  interval; a null and a value outside every interval give null.
\<close>

fun cut_right :: "rat \<Rightarrow> rat list \<Rightarrow> string list \<Rightarrow> string option" where
  "cut_right x (lo # hi # bins) (l # labels) =
     (if lo < x \<and> x \<le> hi then Some l else cut_right x (hi # bins) labels)"
| "cut_right x bins labels = None"

definition pd_cut :: "rat option \<Rightarrow> rat list \<Rightarrow> string list \<Rightarrow> bool \<Rightarrow> string option" where
  "pd_cut cell bins labels include_lowest =
     (case cell of
        None \<Rightarrow> None
      | Some x \<Rightarrow>
          (case bins of
             [] \<Rightarrow> None
           | lo # _ \<Rightarrow>
               (case labels of
                  [] \<Rightarrow> None
                | l # _ \<Rightarrow> if include_lowest \<and> x = lo then Some l
                           else cut_right x bins labels)))"

definition age_bins :: "rat list" where
  "age_bins = [0, 20, 30, 40, 50, 100]"

definition age_labels :: "string list" where
  "age_labels = [''0-20'', ''21-30'', ''31-40'', ''41-50'', ''51+'']"

definition generate_pdf_age_group :: "row \<Rightarrow> string option" where
  "generate_pdf_age_group r = pd_cut (customer_age r) age_bins age_labels True"

definition dashboard_age_group :: "row \<Rightarrow> string option" where
  "dashboard_age_group r = pd_cut (customer_age r) age_bins age_labels True"

text \<open>The lower edge of the bucket a label names: label \<open>i\<close> spans the bin edges \<open>i\<close> and
  \<open>i + 1\<close>.\<close>

definition bucket_lower_edge :: "string \<Rightarrow> rat option" where
  "bucket_lower_edge label = map_of (zip age_labels age_bins) label"

definition bucket_upper_edge :: "string \<Rightarrow> rat option" where
  "bucket_upper_edge label = map_of (zip age_labels (tl age_bins)) label"

section \<open>Temporary chart files of the PDF export (lines 179-181, 398-415)\<close>

text \<open>
  Each chart of the report is written by
  \<^verbatim>\<open>with tempfile.NamedTemporaryFile(delete=False, suffix=".png") as tmpfile:
      pio.write_image(fig, file=tmpfile.name, ...); charts.append((tmpfile.name, title))\<close>
  and, after all charts are written, the loop of lines 398-415 reads each file
  (\<^verbatim>\<open>ImageReader\<close>), draws it and removes it with \<^verbatim>\<open>os.unlink\<close>. There is no
  \<^verbatim>\<open>try\<close> in \<^verbatim>\<open>generate_pdf\<close>: an exception of \<^verbatim>\<open>write_image\<close> or of the image
  reader leaves the function at once.

  A chart is a job with two flags saying whether writing and whether reading its image
  succeeds. The state is the list of temporary files on disk and the next unused file
  name. The result is the state and whether the export returned (\<open>False\<close>: it raised).
\<close>

record chart_job =
  chart_title :: string
  write_ok :: bool
  read_ok :: bool

record tmp_state =
  tmp_files :: "nat list"
  fresh :: nat

fun write_charts ::
  "chart_job list \<Rightarrow> tmp_state \<Rightarrow> (nat \<times> chart_job) list \<Rightarrow> tmp_state \<times> (nat \<times> chart_job) list option" where
  "write_charts [] st charts = (st, Some charts)"
| "write_charts (j # js) st charts =
     (let path = fresh st;
          st' = \<lparr> tmp_files = tmp_files st @ [path], fresh = Suc path \<rparr>
      in if write_ok j then write_charts js st' (charts @ [(path, j)])
         else (st', None))"

fun embed_charts :: "(nat \<times> chart_job) list \<Rightarrow> tmp_state \<Rightarrow> tmp_state \<times> bool" where
  "embed_charts [] st = (st, True)"
| "embed_charts ((path, j) # charts) st =
     (if read_ok j
      then embed_charts charts (st \<lparr> tmp_files := removeAll path (tmp_files st) \<rparr>)
      else (st, False))"

definition generate_pdf_files :: "chart_job list \<Rightarrow> tmp_state \<Rightarrow> tmp_state \<times> bool" where
  "generate_pdf_files jobs st =
     (case write_charts jobs st [] of
        (st', None) \<Rightarrow> (st', False)
      | (st', Some charts) \<Rightarrow> embed_charts charts st')"

section \<open>Loading (lines 18-44)\<close>

text \<open>
  The file is either absent or a table with a header (its column names) and rows.
  \<^verbatim>\<open>load_data\<close> ends in \<^verbatim>\<open>st.error(message); st.stop()\<close> or returns the frame, after
  an optional warning. \<^verbatim>\<open>pd.read_csv(..., parse_dates=['sale_date', 'timestamp'])\<close>
  raises \<^verbatim>\<open>ValueError("Missing column provided to 'parse_dates': '<names>'")\<close>, the
  names sorted and joined by a comma, when the header lacks a column it is told to parse;
  the \<^verbatim>\<open>except Exception\<close> clause of \<^verbatim>\<open>load_data\<close> reports it as
  \<^verbatim>\<open>Error loading data: ...\<close>. The rows are typed records; their cells are read only
  after the header checks have passed.
\<close>

datatype csv_source = NotFound | Csv "string list" "row list"

datatype load_result = Loaded "row list" bool | Stopped string

definition required_columns :: "string list" where
  "required_columns = [''sale_date'', ''country'', ''salesperson'', ''total_price'', ''category'',
     ''product_name'', ''sales_channel'', ''customer_age'', ''customer_gender'',
     ''event_type'', ''status_code'', ''customer_id'', ''customer_type'', ''occupation'',
     ''session_id'', ''response_time_ms'', ''url_requested'']"

fun join_comma :: "string list \<Rightarrow> string" where
  "join_comma [] = []"
| "join_comma [x] = x"
| "join_comma (x # y # xs) = x @ '', '' @ join_comma (y # xs)"

definition quote_char :: string where
  "quote_char = [CHR 0x27]"

definition read_csv_missing_parse_dates :: "string list \<Rightarrow> string list" where
  "read_csv_missing_parse_dates columns_present =
     sort (remdups (filter (\<lambda>c. c \<notin> set columns_present) [''sale_date'', ''timestamp'']))"

definition load_data :: "csv_source \<Rightarrow> load_result" where
  "load_data src =
     (case src of
        NotFound \<Rightarrow> Stopped ''sales_data.csv not found. Please upload the file.''
      | Csv columns_present rows \<Rightarrow>
          if read_csv_missing_parse_dates columns_present \<noteq> []
          then Stopped (''Error loading data: '' @ ''Missing column provided to 'parse_dates': ''
                          @ quote_char @ join_comma (read_csv_missing_parse_dates columns_present)
                          @ quote_char)
          else
            (let missing_columns = filter (\<lambda>col. col \<notin> set columns_present) required_columns
             in if missing_columns \<noteq> []
                then Stopped (''Missing required columns: '' @ join_comma missing_columns)
                else if list_ex (\<lambda>r. pd_lt (total_price r) 0) rows
                then Stopped (''Negative values found in 'total_price'.'')
                else if list_ex (\<lambda>r. pd_lt (customer_age r) 0) rows
                        \<or> list_ex (\<lambda>r. pd_gt (customer_age r) 120) rows
                then Stopped (''Invalid 'customer_age' values detected.'')
                else Loaded rows (\<not> distinct (map session_id rows))))"

section \<open>Example rows\<close>

definition sale :: "string \<Rightarrow> string \<Rightarrow> rat \<Rightarrow> row" where
  "sale person product price =
     blank_row \<lparr> sale_date := Some 0, salesperson := Some person, total_price := Some price,
       product_name := Some product, event_type := Some ''Purchase'', status_code := Some 200 \<rparr>"

definition visit :: "string \<Rightarrow> rat \<Rightarrow> row" where
  "visit session ms =
     blank_row \<lparr> sale_date := Some 0, event_type := Some ''Page View'', status_code := Some 200,
       session_id := Some session, response_time_ms := Some ms \<rparr>"

section \<open>Purchase subset\<close>

lemma purchase_mask_iff:
  "(pd_gt (total_price r) 0 \<and> pd_eq (event_type r) ''Purchase'' \<and> pd_eq (status_code r) 200)
     = successful_sale r"
  by (auto simp: pd_gt_def pd_eq_def successful_sale_def split: option.splits)

lemma filter_data_row_salesperson:
  assumes "r \<in> set (filter_data m df c cat ch kw (Some sp) s e)" "sp \<noteq> []" "sp \<noteq> ''All''"
  shows "pd_eq (salesperson r) sp"
  using assms by (simp add: filter_data_def Let_def)

lemma filter_data_row_dates:
  assumes "r \<in> set (filter_data m df c cat ch kw sp s e)"
  shows "pd_ge (sale_date r) s \<and> pd_le (sale_date r) e"
  using assms by (simp add: filter_data_def Let_def)

lemma filter_data_salesperson_fixed:
  assumes "sp \<noteq> []" "sp \<noteq> ''All''"
  shows "filter (\<lambda>r. pd_eq (salesperson r) sp)
           (filter_data m df c cat ch kw (Some sp) s e)
         = filter_data m df c cat ch kw (Some sp) s e"
  using assms filter_data_row_salesperson by (simp add: filter_id_conv)

lemma filter_data_dates_fixed:
  "filter (\<lambda>r. pd_ge (sale_date r) s \<and> pd_le (sale_date r) e)
     (filter_data m df c cat ch kw sp s e) = filter_data m df c cat ch kw sp s e"
  using filter_data_row_dates by (simp add: filter_id_conv)

lemma person_df_is_working:
  "generate_pdf_person_df (filter_data m df c cat ch kw sp s e) sp s e
     = filter_data m df c cat ch kw sp s e"
  "dashboard_person_df (filter_data m df c cat ch kw sp s e) sp s e
     = filter_data m df c cat ch kw sp s e"
  by (cases sp; simp add: generate_pdf_person_df_def dashboard_person_df_def
        filter_data_salesperson_fixed filter_data_dates_fixed)+

text \<open>
  Claim C1. For every table and every choice of filters, the purchase subset of line 129
  is exactly the rows of the working subset with \<open>total_price > 0\<close>, \<open>event_type =
  'Purchase'\<close> and \<open>status_code = 200\<close>, in the working subset's order; it is therefore
  contained in the working subset and every row of it satisfies the predicate. The
  Sales Manager and Sales Marketer paths read this subset; the two Salesperson paths
  (PDF and live) rebuild their purchases from the working subset and get the same rows.
\<close>

theorem purchase_subset_canonical:
  "purchases_df (filter_data m df c cat ch kw sp s e)
     = filter successful_sale (filter_data m df c cat ch kw sp s e)
   \<and> set (purchases_df (filter_data m df c cat ch kw sp s e))
       \<subseteq> set (filter_data m df c cat ch kw sp s e)
   \<and> list_all successful_sale (purchases_df (filter_data m df c cat ch kw sp s e))
   \<and> generate_pdf_person_purchases (filter_data m df c cat ch kw sp s e) sp s e
       = filter successful_sale (filter_data m df c cat ch kw sp s e)
   \<and> dashboard_person_purchases (filter_data m df c cat ch kw sp s e) sp s e
       = filter successful_sale (filter_data m df c cat ch kw sp s e)"
proof -
  let ?w = "filter_data m df c cat ch kw sp s e"
  have p: "purchases_df ?w = filter successful_sale ?w"
    by (simp add: purchases_df_def purchase_mask_iff)
  have sub: "set (purchases_df ?w) \<subseteq> set ?w"
    by (simp add: p)
  have allp: "list_all successful_sale (purchases_df ?w)"
    by (simp add: p list_all_iff)
  have pdf: "generate_pdf_person_purchases ?w sp s e = filter successful_sale ?w"
    by (simp add: generate_pdf_person_purchases_def person_df_is_working purchase_mask_iff)
  have live: "dashboard_person_purchases ?w sp s e = filter successful_sale ?w"
    by (simp add: dashboard_person_purchases_def person_df_is_working purchase_mask_iff)
  from p sub allp pdf live show ?thesis by blast
qed

section \<open>Live view and PDF report\<close>

lemma groupby_sum_Nil: "groupby_sum key val [] = []"
  by (simp add: groupby_sum_def group_keys_def non_null_def List.map_filter_simps)

lemma nlargest_Nil: "nlargest n [] = []"
  by (simp add: nlargest_def)

text \<open>
  Claim C2. For each of the three roles, and for any working subset, purchase subset,
  salesperson, date range and target, the KPI numbers of the live view are the numbers
  \<^verbatim>\<open>generate_pdf\<close> writes into the report. (The Sales Marketer computation may raise;
  then it raises the same error on both sides.)
\<close>

theorem live_kpis_equal_pdf_kpis:
  "manager_dashboard filtered_df purchases = generate_pdf_manager filtered_df purchases
   \<and> salesperson_dashboard filtered_df sp s e target
       = generate_pdf_salesperson filtered_df sp s e target
   \<and> marketer_dashboard filtered_df = generate_pdf_marketer filtered_df"
proof -
  have mgr: "manager_dashboard filtered_df purchases = generate_pdf_manager filtered_df purchases"
  proof (cases "purchases = []")
    case True
    then show ?thesis
      by (simp add: manager_dashboard_def generate_pdf_manager_def groupby_sum_Nil nlargest_Nil)
  next
    case False
    then show ?thesis
      by (simp add: manager_dashboard_def generate_pdf_manager_def)
  qed
  have person: "dashboard_person_df filtered_df sp s e = generate_pdf_person_df filtered_df sp s e"
    by (simp add: dashboard_person_df_def generate_pdf_person_df_def)
  have purch: "dashboard_person_purchases filtered_df sp s e
                 = generate_pdf_person_purchases filtered_df sp s e"
    by (simp add: dashboard_person_purchases_def generate_pdf_person_purchases_def person)
  have conv: "dashboard_conversion_rate = generate_pdf_conversion_rate"
    by (intro ext) (simp add: dashboard_conversion_rate_def generate_pdf_conversion_rate_def)
  have gauge: "dashboard_gauge_color = generate_pdf_gauge_color"
    by (intro ext) (simp add: dashboard_gauge_color_def generate_pdf_gauge_color_def)
  have slp: "salesperson_dashboard filtered_df sp s e target
              = generate_pdf_salesperson filtered_df sp s e target"
    unfolding salesperson_dashboard_def generate_pdf_salesperson_def person purch conv gauge
    by (rule refl)
  have avg: "dashboard_avg_session_length filtered_df = generate_pdf_avg_session_length filtered_df"
    by (simp add: dashboard_avg_session_length_def generate_pdf_avg_session_length_def)
  have hour: "dashboard_most_active_hour filtered_df = generate_pdf_most_active_hour filtered_df"
    by (simp add: dashboard_most_active_hour_def generate_pdf_most_active_hour_def)
  have mk: "marketer_dashboard filtered_df = generate_pdf_marketer filtered_df"
    by (simp add: marketer_dashboard_def generate_pdf_marketer_def avg hour)
  from mgr slp mk show ?thesis by blast
qed

section \<open>Top salesperson\<close>

lemmas frame_eval = groupby_sum_def groupby_mean_def group_keys_def group_rows_def non_null_def
  sale_def visit_def blank_row_def pd_sum_def pd_mean_def nlargest_def
  pd_eq_def pd_gt_def pd_ge_def pd_le_def pd_lt_def

text \<open>
  Claim C3, evaluated. The purchase subset holds one sale of Bob for 100 and one of Alice
  for 10. \<^verbatim>\<open>groupby('salesperson')\<close> orders the sums by name, and neither path sorts
  them by revenue (the product KPI next to it uses \<^verbatim>\<open>nlargest\<close>), so the "Top
  Salesperson" KPI of the report and of the live view is Alice with 10, although Bob sold
  100.
\<close>

theorem top_salesperson_first_by_name_example:
  "groupby_sum salesperson total_price [sale ''Bob'' ''Widget'' 100, sale ''Alice'' ''Widget'' 10]
     = [(''Alice'', 10), (''Bob'', 100)]
   \<and> top_salesperson
        (generate_pdf_manager [] [sale ''Bob'' ''Widget'' 100, sale ''Alice'' ''Widget'' 10])
       = ''Alice''
   \<and> top_salesperson_sales
        (generate_pdf_manager [] [sale ''Bob'' ''Widget'' 100, sale ''Alice'' ''Widget'' 10])
       = 10
   \<and> top_salesperson
        (manager_dashboard [] [sale ''Bob'' ''Widget'' 100, sale ''Alice'' ''Widget'' 10])
       = ''Alice''
   \<and> top_salesperson_sales
        (manager_dashboard [] [sale ''Bob'' ''Widget'' 100, sale ''Alice'' ''Widget'' 10])
       = 10"
  by (simp add: generate_pdf_manager_def manager_dashboard_def frame_eval)

section \<open>Double arithmetic: values and rounding error\<close>

lemma rne_near:
  assumes "\<bar>q - of_int k\<bar> < 1 / 2"
  shows "rne q = k"
proof (cases "of_int k \<le> q")
  case True
  with assms have "q < of_int k + 1" by linarith
  with True have f: "\<lfloor>q\<rfloor> = k" by (simp add: floor_unique)
  show ?thesis using assms True by (simp add: rne_def f Let_def)
next
  case False
  with assms have lo: "of_int (k - 1) \<le> q" and hi: "q < of_int (k - 1) + 1" by simp_all
  then have f: "\<lfloor>q\<rfloor> = k - 1" by (rule floor_unique)
  have "1 / 2 < q - of_int (k - 1)" using assms False by simp
  then show ?thesis by (simp add: rne_def f Let_def)
qed

lemma rne_error: "\<bar>of_int (rne q) - q\<bar> \<le> 1 / 2"
proof -
  have lo: "of_int \<lfloor>q\<rfloor> \<le> q" and hi: "q < of_int \<lfloor>q\<rfloor> + 1" by linarith+
  show ?thesis unfolding rne_def Let_def using lo hi by auto
qed

lemma scale_up_steps:
  "0 < m \<Longrightarrow> 2 ^ 52 \<le> m * 2 ^ n \<Longrightarrow> m * 2 ^ n < 2 ^ 53 \<Longrightarrow> min_ulp \<le> u / 2 ^ n \<Longrightarrow>
   scale_up m u = (m * 2 ^ n, u / 2 ^ n)"
proof (induction n arbitrary: m u)
  case 0
  then show ?case by (simp add: scale_up.simps)
next
  case (Suc n)
  have pw: "(1::rat) \<le> 2 ^ n" by simp
  have "m * 2 * 2 ^ n < 2 ^ 53" using Suc.prems(3) by (simp add: mult.assoc)
  moreover have "m * 2 \<le> m * 2 * 2 ^ n" using Suc.prems(1) pw by simp
  ultimately have "m * 2 < 2 * 2 ^ 52" by simp
  then have small: "m < 2 ^ 52" by simp
  have mu: "0 < min_ulp" by (simp add: min_ulp_def)
  have "u / 2 ^ Suc n < u"
  proof -
    have "0 < u / 2 ^ Suc n" using Suc.prems(4) mu by linarith
    then have "0 < u" by (simp add: zero_less_divide_iff)
    moreover have "(1::rat) < 2 * 2 ^ n" using pw by linarith
    then have "(1::rat) < 2 ^ Suc n" by simp
    ultimately show ?thesis by (simp add: divide_less_eq del: power_Suc)
  qed
  with Suc.prems(4) have big: "min_ulp < u" by linarith
  have "scale_up m u = scale_up (m * 2) (u / 2)"
    using small big by (subst scale_up.simps) simp
  also have "\<dots> = (m * 2 * 2 ^ n, u / 2 / 2 ^ n)"
    using Suc.prems by (intro Suc.IH) (simp_all add: mult.assoc)
  finally show ?case by (simp add: mult.assoc)
qed

text \<open>The value of a rounding, for a positive number below \<open>2^53\<close>: scaled by \<open>2^n\<close>
  into \<open>[2^52, 2^53)\<close> it lies within a half of the integer \<open>k\<close>.\<close>

lemma round_double_eval:
  assumes "0 < x" "2 ^ 52 \<le> x * 2 ^ n" "x * 2 ^ n < 2 ^ 53" "n \<le> 1074"
    and "\<bar>x * 2 ^ n - of_int k\<bar> < 1 / 2"
  shows "round_double x = of_int k / 2 ^ n"
proof -
  have pw: "(1::rat) \<le> 2 ^ n" by simp
  have "x \<le> x * 2 ^ n" using assms(1) pw by simp
  with assms(3) have "x < 2 ^ 53" by linarith
  then have down: "scale_down x 1 = (x, 1)"
    by (subst scale_down.simps) simp
  have "(2::rat) ^ n \<le> 2 ^ 1074" using assms(4) by (intro power_increasing) simp_all
  then have "min_ulp \<le> 1 / 2 ^ n"
    unfolding min_ulp_def by (simp add: frac_le)
  then have up: "scale_up x 1 = (x * 2 ^ n, 1 / 2 ^ n)"
    using assms by (intro scale_up_steps) simp_all
  have "sgn x = 1" using assms(1) by simp
  then show ?thesis
    using assms(1) by (simp add: round_double_def down up rne_near [OF assms(5)])
qed


lemma double_0_9: "round_double (9 / 10) = 8106479329266893 / 2 ^ 53"
  using round_double_eval [of "9 / 10" 53 8106479329266893] by simp

lemma double_6_3: "round_double (63 / 10) = 7093169413108531 / 2 ^ 50"
  using round_double_eval [of "63 / 10" 50 7093169413108531] by simp

lemma double_11_7: "round_double (117 / 10) = 6586514455029350 / 2 ^ 49"
  using round_double_eval [of "117 / 10" 49 6586514455029350] by simp

lemma fmul_7_0_9: "fmul 7 (round_double (9 / 10)) = 7093169413108531 / 2 ^ 50"
  using round_double_eval [of "7 * (8106479329266893 / 2 ^ 53)" 50 7093169413108531]
  by (simp add: fmul_def double_0_9)

lemma fmul_13_0_9: "fmul 13 (round_double (9 / 10)) = 6586514455029351 / 2 ^ 49"
  using round_double_eval [of "13 * (8106479329266893 / 2 ^ 53)" 49 6586514455029351]
  by (simp add: fmul_def double_0_9)

lemma fmul_1000_0_9: "fmul 1000 (round_double (9 / 10)) = 900"
  using round_double_eval [of "1000 * (8106479329266893 / 2 ^ 53)" 43 7916483719987200]
  by (simp add: fmul_def double_0_9)


lemma scale_down_inv:
  assumes "0 < m" "0 < u" "scale_down m u = (m', u')"
  shows "m' * u' = m * u \<and> 0 < m' \<and> m' < 2 ^ 53 \<and> 0 < u'"
  using assms
proof (induction m u rule: scale_down.induct)
  case (1 m u)
  show ?case
  proof (cases "2 ^ 53 \<le> m")
    case True
    then have "scale_down (m / 2) (u * 2) = (m', u')"
      using "1.prems"(3) by (subst (asm) scale_down.simps) simp
    with "1.IH" [OF True] "1.prems"(1,2)
    have "m' * u' = m / 2 * (u * 2) \<and> 0 < m' \<and> m' < 2 ^ 53 \<and> 0 < u'" by simp
    then show ?thesis by simp
  next
    case False
    then have "m' = m \<and> u' = u"
      using "1.prems"(3) by (subst (asm) scale_down.simps) simp
    with False "1.prems"(1,2) show ?thesis by simp
  qed
qed

lemma scale_up_inv:
  assumes "0 < m" "m < 2 ^ 53" "0 < u" "scale_up m u = (m', u')"
  shows "m' * u' = m * u \<and> 0 < m' \<and> m' < 2 ^ 53 \<and> 0 < u' \<and> (2 ^ 52 \<le> m' \<or> u' \<le> min_ulp)"
  using assms
proof (induction m u rule: scale_up.induct)
  case (1 m u)
  show ?case
  proof (cases "m < 2 ^ 52 \<and> min_ulp < u")
    case True
    then have rec: "scale_up (m * 2) (u / 2) = (m', u')"
      using "1.prems"(4) by (subst (asm) scale_up.simps) simp
    have "m * 2 < 2 * 2 ^ 52" using True by simp
    then have "m * 2 < 2 ^ 53" by simp
    with "1.IH" [OF True] "1.prems"(1,3) rec
    have "m' * u' = m * 2 * (u / 2) \<and> 0 < m' \<and> m' < 2 ^ 53 \<and> 0 < u'
            \<and> (2 ^ 52 \<le> m' \<or> u' \<le> min_ulp)" by simp
    then show ?thesis by simp
  next
    case False
    then have "scale_up m u = (m, u)"
      by (subst scale_up.simps) auto
    with "1.prems"(4) have same: "m' = m \<and> u' = u" by simp
    from False have "2 ^ 52 \<le> m \<or> u \<le> min_ulp" by linarith
    with same "1.prems"(1,2,3) show ?thesis by simp
  qed
qed

text \<open>In the normal range (from \<open>2^-1022\<close> on) rounding changes a number by at most the
  fraction \<open>2^-53\<close> of it.\<close>

lemma round_double_error:
  assumes "2 ^ 52 * min_ulp \<le> x"
  shows "\<bar>round_double x - x\<bar> \<le> x / 2 ^ 53"
proof -
  have mu: "0 < min_ulp" by (simp add: min_ulp_def)
  then have "0 < 2 ^ 52 * min_ulp" by simp
  with assms have pos: "0 < x" by linarith
  obtain m u where down: "scale_down x 1 = (m, u)" by (cases "scale_down x 1")
  obtain m' u' where up: "scale_up m u = (m', u')" by (cases "scale_up m u")
  from scale_down_inv [OF pos _ down]
  have d: "m * u = x" "0 < m" "m < 2 ^ 53" "0 < u" by simp_all
  from scale_up_inv [OF d(2) d(3) d(4) up] d(1)
  have p: "m' * u' = x" "0 < m'" "0 < u'" "2 ^ 52 \<le> m' \<or> u' \<le> min_ulp" by simp_all
  have normal: "2 ^ 52 \<le> m'"
  proof (rule ccontr)
    assume "\<not> 2 ^ 52 \<le> m'"
    then have small: "m' < 2 ^ 52" by simp
    with p(4) have "u' \<le> min_ulp" by simp
    then have "m' * u' \<le> m' * min_ulp" using p(2) by simp
    also have "\<dots> < 2 ^ 52 * min_ulp" using small mu by simp
    finally show False using p(1) assms by simp
  qed
  have val: "round_double x = of_int (rne m') * u'"
    using pos by (simp add: round_double_def down up)
  have "round_double x - x = (of_int (rne m') - m') * u'"
    by (simp add: val left_diff_distrib p(1))
  then have "\<bar>round_double x - x\<bar> = \<bar>of_int (rne m') - m'\<bar> * u'"
    using p(3) by (simp only: abs_mult abs_of_pos)
  also have "\<dots> \<le> 1 / 2 * u'"
    using rne_error [of m'] p(3) by (intro mult_right_mono) simp_all
  also have "\<dots> \<le> m' / 2 ^ 53 * u'"
  proof (intro mult_right_mono)
    have "(2::rat) ^ 53 = 2 * 2 ^ 52" by simp
    then show "1 / 2 \<le> m' / 2 ^ 53" using normal by (simp add: field_simps)
    show "0 \<le> u'" using p(3) by simp
  qed
  also have "\<dots> = x / 2 ^ 53" by (simp add: p(1) [symmetric])
  finally show ?thesis .
qed

text \<open>The computed threshold \<^verbatim>\<open>sales_target * 0.9\<close> lies within the fraction \<open>2^-52\<close> of the
  exact nine tenths of the target.\<close>

lemma gauge_threshold_band:
  assumes "1 / 2 ^ 1021 \<le> t"
  shows "9 / 10 * (1 - 1 / 2 ^ 52) * t \<le> fmul t (round_double (9 / 10))"
    and "fmul t (round_double (9 / 10)) \<le> 9 / 10 * (1 + 1 / 2 ^ 52) * t"
proof -
  define c :: rat where "c = 8106479329266893 / 2 ^ 53"
  have tpos: "0 < t" using assms by (rule less_le_trans [rotated]) simp
  have half: "1 / 2 \<le> c" by (simp add: c_def)
  have "1 / 2 ^ 1021 * (1 / 2) \<le> t * c"
    using assms half by (intro mult_mono) simp_all
  moreover have "2 ^ 52 * min_ulp = 1 / 2 ^ 1021 * (1 / 2)" by (simp add: min_ulp_def)
  ultimately have "2 ^ 52 * min_ulp \<le> t * c" by simp
  then have err: "\<bar>round_double (t * c) - t * c\<bar> \<le> t * c / 2 ^ 53"
    by (rule round_double_error)
  have lo: "9 / 10 * (1 - 1 / 2 ^ 52) \<le> c * (1 - 1 / 2 ^ 53)" by (simp add: c_def)
  have hi: "c * (1 + 1 / 2 ^ 53) \<le> 9 / 10 * (1 + 1 / 2 ^ 52)" by (simp add: c_def)
  have "t * (9 / 10 * (1 - 1 / 2 ^ 52)) \<le> t * (c * (1 - 1 / 2 ^ 53))"
    using lo tpos by (intro mult_left_mono) simp_all
  also have "\<dots> = t * c - t * c / 2 ^ 53" by (simp add: algebra_simps)
  also have "\<dots> \<le> round_double (t * c)" using err by linarith
  finally show "9 / 10 * (1 - 1 / 2 ^ 52) * t \<le> fmul t (round_double (9 / 10))"
    by (simp add: fmul_def double_0_9 c_def mult.commute)
  have "round_double (t * c) \<le> t * c + t * c / 2 ^ 53" using err by linarith
  also have "\<dots> = t * (c * (1 + 1 / 2 ^ 53))" by (simp add: algebra_simps)
  also have "\<dots> \<le> t * (9 / 10 * (1 + 1 / 2 ^ 52))"
    using hi tpos by (intro mult_left_mono) simp_all
  finally show "fmul t (round_double (9 / 10)) \<le> 9 / 10 * (1 + 1 / 2 ^ 52) * t"
    by (simp add: fmul_def double_0_9 c_def mult.commute)
qed

section \<open>Gauge colour\<close>

lemmas gauge_defs = generate_pdf_gauge_color_def dashboard_gauge_color_def

text \<open>At target 13 and revenue 11.7 (the double) the computed threshold is the next double
  above 11.7, and the bar is red.\<close>

lemma gauge_target_13:
  "generate_pdf_gauge_color (round_double (117 / 10)) 13 = ''red''
   \<and> dashboard_gauge_color (round_double (117 / 10)) 13 = ''red''"
  by (simp add: gauge_defs double_11_7 fmul_13_0_9)

text \<open>
  Claim C4 fails in two places. The threshold is the double product
  \<^verbatim>\<open>sales_target * 0.9\<close>, not the exact nine tenths of the target: with target 7
  and revenue 6.3 (the double, which is below 63/10) the revenue is below 0.9 times the
  target, and the bar is magenta, not red. And where the target is 0 (the sidebar input
  allows it, \<^verbatim>\<open>min_value=0.0\<close>), 0.95 times the target and 0.5 times the target are the
  target itself, and the bar is green.
\<close>

theorem gauge_threshold_counterexample:
  "round_double (63 / 10) < 9 / 10 * 7
   \<and> round_double (63 / 10) < 7
   \<and> generate_pdf_gauge_color (round_double (63 / 10)) 7 = ''magenta''
   \<and> dashboard_gauge_color (round_double (63 / 10)) 7 = ''magenta''
   \<and> generate_pdf_gauge_color (95 / 100 * 0) 0 = ''green''
   \<and> dashboard_gauge_color (1 / 2 * 0) 0 = ''green''"
  by (simp add: gauge_defs double_6_3 fmul_7_0_9)

text \<open>
  Claim C4, amended. For every revenue and every target, in the report and in the live
  view: the bar is green if revenue \<open>\<ge>\<close> target; magenta if revenue is below the target
  and \<open>\<ge>\<close> the product \<^verbatim>\<open>sales_target * 0.9\<close> as double arithmetic computes it; red
  otherwise. That product is within the fraction \<open>2^-52\<close> of the exact 0.9 times the
  target, so for every target from \<open>2^-1021\<close> on: revenue below the target and \<open>\<ge>\<close>
  \<open>0.9 (1 + 2^-52)\<close> times the target gives magenta, and revenue below
  \<open>0.9 (1 - 2^-52)\<close> times the target gives red. Revenue = target gives green for every
  target; for every target from \<open>2^-1021\<close> on, revenue = 0.95 times the target gives
  magenta and revenue = 0.5 times the target gives red.
\<close>

theorem gauge_three_tier:
  "(target \<le> revenue \<longrightarrow>
      generate_pdf_gauge_color revenue target = ''green''
      \<and> dashboard_gauge_color revenue target = ''green'')
   \<and> (revenue < target \<and> fmul target (round_double (9 / 10)) \<le> revenue \<longrightarrow>
         generate_pdf_gauge_color revenue target = ''magenta''
         \<and> dashboard_gauge_color revenue target = ''magenta'')
   \<and> (revenue < target \<and> revenue < fmul target (round_double (9 / 10)) \<longrightarrow>
         generate_pdf_gauge_color revenue target = ''red''
         \<and> dashboard_gauge_color revenue target = ''red'')
   \<and> (1 / 2 ^ 1021 \<le> target \<and> revenue < target
        \<and> 9 / 10 * (1 + 1 / 2 ^ 52) * target \<le> revenue \<longrightarrow>
         generate_pdf_gauge_color revenue target = ''magenta''
         \<and> dashboard_gauge_color revenue target = ''magenta'')
   \<and> (1 / 2 ^ 1021 \<le> target \<and> revenue < 9 / 10 * (1 - 1 / 2 ^ 52) * target \<longrightarrow>
         generate_pdf_gauge_color revenue target = ''red''
         \<and> dashboard_gauge_color revenue target = ''red'')
   \<and> generate_pdf_gauge_color target target = ''green''
   \<and> dashboard_gauge_color target target = ''green''
   \<and> (1 / 2 ^ 1021 \<le> target \<longrightarrow>
         generate_pdf_gauge_color (95 / 100 * target) target = ''magenta''
         \<and> dashboard_gauge_color (95 / 100 * target) target = ''magenta''
         \<and> generate_pdf_gauge_color (1 / 2 * target) target = ''red''
         \<and> dashboard_gauge_color (1 / 2 * target) target = ''red'')"
proof -
  let ?thr = "fmul target (round_double (9 / 10))"
  have green: "generate_pdf_gauge_color r target = ''green''
                 \<and> dashboard_gauge_color r target = ''green''" if "target \<le> r" for r
    using that by (simp add: gauge_defs)
  have magenta: "generate_pdf_gauge_color r target = ''magenta''
                   \<and> dashboard_gauge_color r target = ''magenta''"
    if "r < target" "?thr \<le> r" for r
    using that by (simp add: gauge_defs)
  have red: "generate_pdf_gauge_color r target = ''red''
               \<and> dashboard_gauge_color r target = ''red''"
    if "r < target" "r < ?thr" for r
    using that by (simp add: gauge_defs)
  have above: "?thr \<le> r"
    if "1 / 2 ^ 1021 \<le> target" "9 / 10 * (1 + 1 / 2 ^ 52) * target \<le> r" for r
    using gauge_threshold_band(2) [OF that(1)] that(2) by linarith
  have below: "r < ?thr \<and> r < target"
    if "1 / 2 ^ 1021 \<le> target" "r < 9 / 10 * (1 - 1 / 2 ^ 52) * target" for r
  proof -
    have "0 < target" using that(1) by (rule less_le_trans [rotated]) simp
    then have "9 / 10 * (1 - 1 / 2 ^ 52) * target \<le> target" by simp
    with gauge_threshold_band(1) [OF that(1)] that(2) show ?thesis by linarith
  qed
  have instances:
    "generate_pdf_gauge_color (95 / 100 * target) target = ''magenta''
     \<and> dashboard_gauge_color (95 / 100 * target) target = ''magenta''
     \<and> generate_pdf_gauge_color (1 / 2 * target) target = ''red''
     \<and> dashboard_gauge_color (1 / 2 * target) target = ''red''"
    if normal: "1 / 2 ^ 1021 \<le> target"
  proof -
    have pos: "0 < target" using normal by (rule less_le_trans [rotated]) simp
    have a: "95 / 100 * target < target" using pos by simp
    have b: "9 / 10 * (1 + 1 / 2 ^ 52) * target \<le> 95 / 100 * target" using pos by simp
    have c: "1 / 2 * target < 9 / 10 * (1 - 1 / 2 ^ 52) * target" using pos by simp
    from magenta [OF a above [OF normal b]] red [of "1 / 2 * target"] below [OF normal c]
    show ?thesis by simp
  qed
  from green [of revenue] green [of target] magenta [of revenue] red [of revenue]
    above [of revenue] below [of revenue] instances
  show ?thesis by blast
qed

theorem gauge_three_tier_witness:
  "generate_pdf_gauge_color 1000 1000 = ''green'' \<and> dashboard_gauge_color 1200 1000 = ''green''
   \<and> generate_pdf_gauge_color 900 1000 = ''magenta'' \<and> dashboard_gauge_color 950 1000 = ''magenta''
   \<and> generate_pdf_gauge_color 899 1000 = ''red'' \<and> dashboard_gauge_color 500 1000 = ''red''"
  using gauge_three_tier [of 1000 1000] gauge_three_tier [of 1000 1200]
    gauge_three_tier [of 1000 900] gauge_three_tier [of 1000 950]
    gauge_three_tier [of 1000 899] gauge_three_tier [of 1000 500]
  by (simp add: fmul_1000_0_9)

section \<open>Conversion rate\<close>

text \<open>The division alone raises for no events; the guard \<^verbatim>\<open>if total_events > 0\<close> is
  what keeps the KPI from it.\<close>

lemma unguarded_division_raises:
  "(case py_truediv n 0 of Inl err \<Rightarrow> Inl err | Inr ratio \<Rightarrow> Inr (fmul ratio 100))
     = Inl ZeroDivisionError"
  by (simp add: py_truediv_def)






section \<open>Most active hour\<close>

lemma to_datetime_all_NaT:
  "list_all (\<lambda>c. c = NaT) cells \<Longrightarrow> to_datetime cells = Inr (replicate (length cells) None)"
  by (induction cells) auto

lemma non_null_replicate_None: "non_null (replicate n None) = []"
  by (induction n) (simp_all add: non_null_def List.map_filter_simps)

lemma pd_mode_all_null: "pd_mode (replicate n None) = []"
  by (simp add: pd_mode_def non_null_replicate_None)

lemma most_active_hour_all_NaT:
  assumes "filtered_df \<noteq> []" "list_all (\<lambda>r. timestamp r = NaT) filtered_df"
  shows "generate_pdf_most_active_hour filtered_df = Inl IndexError"
    and "dashboard_most_active_hour filtered_df = Inl IndexError"
proof -
  have "list_all (\<lambda>c. c = NaT) (map timestamp filtered_df)"
    using assms(2) by (simp add: list_all_iff)
  then have td: "to_datetime (map timestamp filtered_df)
                  = Inr (replicate (length filtered_df) None)"
    using to_datetime_all_NaT by fastforce
  show "generate_pdf_most_active_hour filtered_df = Inl IndexError"
    using assms(1) by (simp add: generate_pdf_most_active_hour_def td dt_hour_def pd_mode_all_null)
  show "dashboard_most_active_hour filtered_df = Inl IndexError"
    using assms(1) by (simp add: dashboard_most_active_hour_def td dt_hour_def pd_mode_all_null)
qed

text \<open>
  Claim C10 fails for a timestamp that is a string and no date: the column is then a
  column of strings, \<^verbatim>\<open>pd.to_datetime\<close> raises a \<^verbatim>\<open>ValueError\<close> on it, and the
  mode is never taken.
\<close>

theorem most_active_hour_unparsed_counterexample:
  "generate_pdf_most_active_hour [(visit ''s1'' 10) \<lparr> timestamp := Unparsed ''not a date'' \<rparr>]
     = Inl ValueError
   \<and> dashboard_most_active_hour [(visit ''s1'' 10) \<lparr> timestamp := Unparsed ''not a date'' \<rparr>]
     = Inl ValueError
   \<and> generate_pdf_most_active_hour [(visit ''s1'' 10) \<lparr> timestamp := Unparsed ''not a date'' \<rparr>]
     \<noteq> Inl IndexError"
  by (simp add: generate_pdf_most_active_hour_def dashboard_most_active_hour_def)

text \<open>
  Claim C10, amended. In Marketer mode, for every non-empty working subset in which every
  timestamp is null (NaT), the most-active-hour KPI raises an \<^verbatim>\<open>IndexError\<close>, in
  \<^verbatim>\<open>generate_pdf\<close> and in the live view, and no KPI bundle is produced: the guard
  looks only at whether the hour column is empty, and the mode of an all-null column is
  the empty series. For the empty working subset the KPI is the placeholder N/A.
\<close>

theorem most_active_hour_all_null_raises:
  "(filtered_df \<noteq> [] \<and> list_all (\<lambda>r. timestamp r = NaT) filtered_df \<longrightarrow>
      generate_pdf_most_active_hour filtered_df = Inl IndexError
      \<and> dashboard_most_active_hour filtered_df = Inl IndexError
      \<and> generate_pdf_marketer filtered_df = Inl IndexError
      \<and> marketer_dashboard filtered_df = Inl IndexError)
   \<and> generate_pdf_most_active_hour [] = Inr NA
   \<and> dashboard_most_active_hour [] = Inr NA"
  using most_active_hour_all_NaT [of filtered_df]
  by (simp add: generate_pdf_marketer_def marketer_dashboard_def
        generate_pdf_most_active_hour_def dashboard_most_active_hour_def)

theorem most_active_hour_all_null_raises_witness:
  "[visit ''s1'' 10] \<noteq> [] \<and> list_all (\<lambda>r. timestamp r = NaT) [visit ''s1'' 10]
   \<and> generate_pdf_most_active_hour [visit ''s1'' 10] = Inl IndexError
   \<and> marketer_dashboard [visit ''s1'' 10] = Inl IndexError"
  using most_active_hour_all_null_raises [of "[visit ''s1'' 10]"]
  by (simp add: visit_def blank_row_def)

section \<open>Average session length\<close>

lemma set_non_null: "set (non_null cells) = Option.these (set cells)"
proof (induction cells)
  case Nil
  then show ?case by (simp add: non_null_def)
next
  case (Cons c cells)
  then show ?case by (cases c) (simp_all add: non_null_def)
qed

lemma set_group_keys: "set (group_keys key df) = Option.these (key ` set df)"
  by (simp add: group_keys_def set_non_null)

lemma distinct_group_keys: "distinct (group_keys key df)"
  by (simp add: group_keys_def)

lemma non_null_map_if:
  "non_null (map (\<lambda>k. if T k then None else Some (M k)) ks) = map M (filter (\<lambda>k. \<not> T k) ks)"
  by (induction ks) (simp_all add: non_null_def)

lemma group_mean_session:
  "pd_mean (map response_time_ms (group_rows session_id df k))
     = (if session_times df k = [] then None else Some (session_mean df k))"
  by (simp add: pd_mean_def group_rows_def session_times_def session_mean_def Let_def)

lemma session_means_column:
  "map snd (groupby_mean session_id response_time_ms df)
     = map (\<lambda>k. if session_times df k = [] then None else Some (session_mean df k))
         (group_keys session_id df)"
  by (simp add: groupby_mean_def group_mean_session comp_def)

lemma mean_of_group_means:
  "pd_mean (map snd (groupby_mean session_id response_time_ms df)) = mean_of_session_means df"
proof -
  let ?ys = "filter (\<lambda>k. session_times df k \<noteq> []) (group_keys session_id df)"
  have nn: "non_null (map snd (groupby_mean session_id response_time_ms df))
              = map (session_mean df) ?ys"
    by (simp add: session_means_column non_null_map_if)
  have dist: "distinct ?ys"
    by (simp add: distinct_group_keys)
  have set_ys: "set ?ys = timed_sessions df"
    by (auto simp: timed_sessions_def set_group_keys)
  have total: "sum_list (map (session_mean df) ?ys) = (\<Sum>s\<in>timed_sessions df. session_mean df s)"
    using dist set_ys by (simp add: sum_list_distinct_conv_sum_set)
  have count: "length ?ys = card (timed_sessions df)"
    using dist set_ys distinct_card by fastforce
  have empty: "?ys = [] \<longleftrightarrow> timed_sessions df = {}"
    using set_ys by (metis set_empty)
  show ?thesis
    unfolding pd_mean_def mean_of_session_means_def Let_def nn
    using total count empty by simp
qed

lemma avg_session_length_not_flat_mean:
  "generate_pdf_avg_session_length [visit ''a'' 10, visit ''a'' 20, visit ''b'' 60] = Some (75 / 2)
   \<and> dashboard_avg_session_length [visit ''a'' 10, visit ''a'' 20, visit ''b'' 60] = Some (75 / 2)
   \<and> flat_mean_response [visit ''a'' 10, visit ''a'' 20, visit ''b'' 60] = Some 30"
  by (simp add: generate_pdf_avg_session_length_def dashboard_avg_session_length_def
        flat_mean_response_def frame_eval)

text \<open>
  Claim C8. In Marketer mode (report and live view), for a non-empty working subset the
  average session length is the plain mean, over the distinct sessions, of each
  session's mean response time: every session weighs the same, however many rows it has.
  For the empty working subset it is 0.
\<close>

theorem avg_session_length_mean_of_means:
  "generate_pdf_avg_session_length filtered_df
     = (if filtered_df = [] then Some 0 else mean_of_session_means filtered_df)
   \<and> dashboard_avg_session_length filtered_df
     = (if filtered_df = [] then Some 0 else mean_of_session_means filtered_df)"
  by (simp add: generate_pdf_avg_session_length_def dashboard_avg_session_length_def
        mean_of_group_means)

text \<open>On three visits, two of session a (10 ms, 20 ms) and one of session b (60 ms), the
  mean of the session means is 37.5, and the mean over all rows would be 30.\<close>

theorem avg_session_length_mean_of_means_witness:
  "mean_of_session_means [visit ''a'' 10, visit ''a'' 20, visit ''b'' 60] = Some (75 / 2)
   \<and> flat_mean_response [visit ''a'' 10, visit ''a'' 20, visit ''b'' 60] = Some 30"
  using avg_session_length_mean_of_means [of "[visit ''a'' 10, visit ''a'' 20, visit ''b'' 60]"]
    avg_session_length_not_flat_mean
  by simp

section \<open>Age groups\<close>

lemmas age_eval = generate_pdf_age_group_def dashboard_age_group_def pd_cut_def age_bins_def
  age_labels_def bucket_lower_edge_def bucket_upper_edge_def blank_row_def

text \<open>
  Claim C7 fails at the boundary ages: age 20 gets the label 0-20, the bucket between the
  edges 0 and 20, not the bucket whose lower edge is 20 (labelled 21-30). The labels of
  the code (0-20, 21-30, 31-40, 41-50) say the same.
\<close>

theorem age_20_in_first_bucket_counterexample:
  "generate_pdf_age_group (blank_row \<lparr> customer_age := Some 20 \<rparr>) = Some ''0-20''
   \<and> dashboard_age_group (blank_row \<lparr> customer_age := Some 20 \<rparr>) = Some ''0-20''
   \<and> bucket_lower_edge ''0-20'' = Some 0
   \<and> bucket_lower_edge ''21-30'' = Some 20
   \<and> generate_pdf_age_group (blank_row \<lparr> customer_age := Some 20 \<rparr>) \<noteq> Some ''21-30''"
  by (simp add: age_eval)

text \<open>
  Claim C7, amended. In Marketer mode (report and live view), every row with a
  customer age in \<open>[0, 100]\<close> gets exactly one of the five labels: the buckets are
  \<open>[0, 20]\<close>, \<open>(20, 30]\<close>, \<open>(30, 40]\<close>, \<open>(40, 50]\<close>, \<open>(50, 100]\<close>, each inclusive of its
  upper edge and the first also of 0, so the boundary ages 20, 30, 40 and 50 fall into
  the bucket whose upper edge they equal.
\<close>

theorem age_group_upper_edge_inclusive:
  assumes "customer_age r = Some a" "0 \<le> a" "a \<le> 100"
  shows "generate_pdf_age_group r
           = Some (if a \<le> 20 then ''0-20'' else if a \<le> 30 then ''21-30''
                   else if a \<le> 40 then ''31-40'' else if a \<le> 50 then ''41-50'' else ''51+'')
         \<and> dashboard_age_group r
           = Some (if a \<le> 20 then ''0-20'' else if a \<le> 30 then ''21-30''
                   else if a \<le> 40 then ''31-40'' else if a \<le> 50 then ''41-50'' else ''51+'')"
  using assms by (auto simp: age_eval)

theorem age_group_upper_edge_inclusive_witness:
  "generate_pdf_age_group (blank_row \<lparr> customer_age := Some 20 \<rparr>) = Some ''0-20''
   \<and> dashboard_age_group (blank_row \<lparr> customer_age := Some 30 \<rparr>) = Some ''21-30''
   \<and> generate_pdf_age_group (blank_row \<lparr> customer_age := Some 40 \<rparr>) = Some ''31-40''
   \<and> dashboard_age_group (blank_row \<lparr> customer_age := Some 50 \<rparr>) = Some ''41-50''
   \<and> generate_pdf_age_group (blank_row \<lparr> customer_age := Some 0 \<rparr>) = Some ''0-20''
   \<and> dashboard_age_group (blank_row \<lparr> customer_age := Some 100 \<rparr>) = Some ''51+''"
  using age_group_upper_edge_inclusive [of "blank_row \<lparr> customer_age := Some 20 \<rparr>" 20]
    age_group_upper_edge_inclusive [of "blank_row \<lparr> customer_age := Some 30 \<rparr>" 30]
    age_group_upper_edge_inclusive [of "blank_row \<lparr> customer_age := Some 40 \<rparr>" 40]
    age_group_upper_edge_inclusive [of "blank_row \<lparr> customer_age := Some 50 \<rparr>" 50]
    age_group_upper_edge_inclusive [of "blank_row \<lparr> customer_age := Some 0 \<rparr>" 0]
    age_group_upper_edge_inclusive [of "blank_row \<lparr> customer_age := Some 100 \<rparr>" 100]
  by simp

text \<open>An age above 100 lies in no interval of the bins and gets no label, although the
  loader accepts ages up to 120 and the last label reads 51+.\<close>

lemma age_group_over_100_null:
  assumes "customer_age r = Some a" "100 < a"
  shows "generate_pdf_age_group r = None \<and> dashboard_age_group r = None"
  using assms by (auto simp: age_eval)

section \<open>Temporary chart files\<close>

lemma write_charts_all_ok:
  "list_all write_ok jobs \<Longrightarrow>
   write_charts jobs st charts
     = (\<lparr> tmp_files = tmp_files st @ [fresh st ..< fresh st + length jobs],
           fresh = fresh st + length jobs \<rparr>,
        Some (charts @ zip [fresh st ..< fresh st + length jobs] jobs))"
proof (induction jobs arbitrary: st charts)
  case Nil
  then show ?case by simp
next
  case (Cons j jobs)
  let ?st' = "\<lparr> tmp_files = tmp_files st @ [fresh st], fresh = Suc (fresh st) \<rparr>"
  have ok: "write_ok j" "list_all write_ok jobs"
    using Cons.prems by simp_all
  have paths: "[fresh st ..< fresh st + length (j # jobs)]
                 = fresh st # [Suc (fresh st) ..< Suc (fresh st) + length jobs]"
    by (simp add: upt_conv_Cons del: upt_Suc)
  have "write_charts (j # jobs) st charts = write_charts jobs ?st' (charts @ [(fresh st, j)])"
    using ok(1) by (simp add: Let_def)
  also have "\<dots> = (\<lparr> tmp_files = tmp_files ?st' @ [fresh ?st' ..< fresh ?st' + length jobs],
                       fresh = fresh ?st' + length jobs \<rparr>,
                    Some ((charts @ [(fresh st, j)])
                            @ zip [fresh ?st' ..< fresh ?st' + length jobs] jobs))"
    by (rule Cons.IH [OF ok(2)])
  also have "\<dots> = (\<lparr> tmp_files = tmp_files st @ [fresh st ..< fresh st + length (j # jobs)],
                       fresh = fresh st + length (j # jobs) \<rparr>,
                    Some (charts @ zip [fresh st ..< fresh st + length (j # jobs)] (j # jobs)))"
    unfolding paths by simp
  finally show ?case .
qed

lemma embed_charts_all_ok:
  "list_all (\<lambda>c. read_ok (snd c)) charts \<Longrightarrow>
   embed_charts charts st
     = (st \<lparr> tmp_files := filter (\<lambda>f. f \<notin> fst ` set charts) (tmp_files st) \<rparr>, True)"
proof (induction charts arbitrary: st)
  case Nil
  then show ?case by simp
next
  case (Cons c charts)
  obtain path j where c: "c = (path, j)" by (cases c)
  have "filter (\<lambda>f. f \<notin> fst ` set charts) (removeAll path (tmp_files st))
          = filter (\<lambda>f. f \<notin> fst ` set (c # charts)) (tmp_files st)"
    by (simp add: c removeAll_filter_not_eq conj_commute eq_commute)
  with Cons show ?case by (simp add: c)
qed

text \<open>
  Claim C9 fails when a chart cannot be written or read: the files created so far and
  not yet embedded stay on disk. With two charts, if reading the second image fails its
  file is left (the first was removed); if writing the second fails both files are left.
\<close>

theorem tmp_files_left_on_failure_counterexample:
  "generate_pdf_files
     [\<lparr> chart_title = ''Total Revenue by Product'', write_ok = True, read_ok = True \<rparr>,
      \<lparr> chart_title = ''Sales by Channel'', write_ok = True, read_ok = False \<rparr>]
     \<lparr> tmp_files = [], fresh = 0 \<rparr>
   = (\<lparr> tmp_files = [1], fresh = 2 \<rparr>, False)
   \<and> generate_pdf_files
     [\<lparr> chart_title = ''Total Revenue by Product'', write_ok = True, read_ok = True \<rparr>,
      \<lparr> chart_title = ''Sales by Channel'', write_ok = False, read_ok = True \<rparr>]
     \<lparr> tmp_files = [], fresh = 0 \<rparr>
   = (\<lparr> tmp_files = [0, 1], fresh = 2 \<rparr>, False)"
  by (simp add: generate_pdf_files_def Let_def)

text \<open>
  Claim C9, amended. During PDF export, if every chart image is written and read without
  an error, every temporary chart file created for the report has been deleted when the
  export returns: the temporary files on disk are those that were there before.
\<close>

theorem tmp_files_removed_when_all_succeed:
  assumes "list_all (\<lambda>j. write_ok j \<and> read_ok j) jobs"
    and "list_all (\<lambda>f. f < fresh st) (tmp_files st)"
  shows "generate_pdf_files jobs st
           = (\<lparr> tmp_files = tmp_files st, fresh = fresh st + length jobs \<rparr>, True)"
proof -
  let ?new = "[fresh st ..< fresh st + length jobs]"
  have w: "list_all write_ok jobs" and r: "list_all read_ok jobs"
    using assms(1) by (simp_all add: list_all_iff)
  have charts_ok: "list_all (\<lambda>c. read_ok (snd c)) (zip ?new jobs)"
    using r by (auto simp: list_all_iff dest: set_zip_rightD)
  have paths: "fst ` set (zip ?new jobs) = set ?new"
    by (metis length_upt add_diff_cancel_left' map_fst_zip set_map)
  have old: "filter (\<lambda>f. f \<notin> set ?new) (tmp_files st) = tmp_files st"
    using assms(2) by (auto simp: list_all_iff filter_id_conv)
  have new: "filter (\<lambda>f. f \<notin> set ?new) ?new = []"
    by (simp add: filter_empty_conv)
  have "generate_pdf_files jobs st
          = embed_charts (zip ?new jobs)
              \<lparr> tmp_files = tmp_files st @ ?new, fresh = fresh st + length jobs \<rparr>"
    by (simp add: generate_pdf_files_def write_charts_all_ok [OF w])
  also have "\<dots> = (\<lparr> tmp_files = filter (\<lambda>f. f \<notin> set ?new) (tmp_files st @ ?new),
                       fresh = fresh st + length jobs \<rparr>, True)"
    by (simp only: embed_charts_all_ok [OF charts_ok] paths) simp
  also have "\<dots> = (\<lparr> tmp_files = tmp_files st, fresh = fresh st + length jobs \<rparr>, True)"
    unfolding filter_append old new by simp
  finally show ?thesis .
qed

theorem tmp_files_removed_when_all_succeed_witness:
  "generate_pdf_files
     [\<lparr> chart_title = ''Total Revenue by Product'', write_ok = True, read_ok = True \<rparr>,
      \<lparr> chart_title = ''Sales by Channel'', write_ok = True, read_ok = True \<rparr>]
     \<lparr> tmp_files = [3], fresh = 7 \<rparr>
   = (\<lparr> tmp_files = [3], fresh = 9 \<rparr>, True)"
  using tmp_files_removed_when_all_succeed
    [of "[\<lparr> chart_title = ''Total Revenue by Product'', write_ok = True, read_ok = True \<rparr>,
          \<lparr> chart_title = ''Sales by Channel'', write_ok = True, read_ok = True \<rparr>]"
        "\<lparr> tmp_files = [3], fresh = 7 \<rparr>"]
  by simp

section \<open>Loading\<close>

text \<open>With the two date columns present, every missing required column is listed, in the
  order of \<^verbatim>\<open>required_columns\<close>.\<close>

lemma read_csv_parse_dates_present:
  assumes "''sale_date'' \<in> set cols" "''timestamp'' \<in> set cols"
  shows "read_csv_missing_parse_dates cols = []"
  using assms by (simp add: read_csv_missing_parse_dates_def)

lemma load_data_lists_all_missing:
  assumes "''sale_date'' \<in> set cols" "''timestamp'' \<in> set cols"
    and "filter (\<lambda>c. c \<notin> set cols) required_columns \<noteq> []"
  shows "load_data (Csv cols rows)
           = Stopped (''Missing required columns: ''
                        @ join_comma (filter (\<lambda>c. c \<notin> set cols) required_columns))"
  using assms by (simp add: load_data_def read_csv_parse_dates_present Let_def)

lemma load_data_missing_customer_age:
  "load_data (Csv (filter (\<lambda>c. c \<noteq> ''customer_age'') (required_columns @ [''timestamp''])) rows)
     = Stopped ''Missing required columns: customer_age''"
  by (simp add: load_data_def read_csv_missing_parse_dates_def required_columns_def Let_def)

lemma load_data_missing_two:
  "load_data (Csv (filter (\<lambda>c. c \<noteq> ''customer_age'' \<and> c \<noteq> ''country'') (required_columns @ [''timestamp''])) rows)
     = Stopped ''Missing required columns: country, customer_age''"
  by (simp add: load_data_def read_csv_missing_parse_dates_def required_columns_def Let_def)

text \<open>
  Claim C6, evaluated. The file has neither \<^verbatim>\<open>sale_date\<close> nor \<^verbatim>\<open>customer_age\<close>.
  \<^verbatim>\<open>read_csv\<close> fails on the missing date column before the check of
  \<^verbatim>\<open>required_columns\<close> (which names \<^verbatim>\<open>sale_date\<close>) is reached, so the message
  names \<^verbatim>\<open>sale_date\<close> only, although the check would have listed both.
\<close>

theorem load_data_missing_sale_date_example:
  "load_data (Csv (filter (\<lambda>c. c \<noteq> ''sale_date'' \<and> c \<noteq> ''customer_age'')
                     (required_columns @ [''timestamp''])) [])
     = Stopped (''Error loading data: Missing column provided to 'parse_dates': ''
                  @ quote_char @ ''sale_date'' @ quote_char)
   \<and> filter (\<lambda>col. col \<notin> set (filter (\<lambda>c. c \<noteq> ''sale_date'' \<and> c \<noteq> ''customer_age'')
                                     (required_columns @ [''timestamp''])))
        required_columns
     = [''sale_date'', ''customer_age'']"
  by (simp add: load_data_def read_csv_missing_parse_dates_def required_columns_def Let_def)

end
